theory Spec2Isabelle
  imports Complex_Main
begin

section \<open>Order management: data model of \<^verbatim>\<open>adv_alg_05.py\<close>\<close>

text \<open>
  The program declares four mapped entity classes (\<^verbatim>\<open>Supplier\<close>, \<^verbatim>\<open>Product\<close>,
  \<^verbatim>\<open>Order\<close>, \<^verbatim>\<open>OrderItem\<close>) over a shared abstract base \<^verbatim>\<open>BaseTable\<close>, a
  session scope \<^verbatim>\<open>DatabaseConnection.get_session\<close>, a provisioning routine
  \<^verbatim>\<open>create_database\<close> and four transfer classes (\<^verbatim>\<open>...ODT\<close>), of which the two for
  orders and their items are embedded here.

  Conventions of the embedding.
  \<^item> An attribute of a mapped instance holds \<^verbatim>\<open>None\<close> until it is assigned or the row
    is flushed: the constructor (lines 84-87) sets the keywords passed and nothing else,
    and a column default is applied at the INSERT. Every attribute on which a method of the
    source computes (the two timestamps, \<^verbatim>\<open>OrderItem.price\<close>, \<^verbatim>\<open>OrderItem.quantity\<close>) and
    every column declared without \<^verbatim>\<open>nullable=False\<close> is therefore an \<open>option\<close>, \<open>None\<close>
    being Python's \<^verbatim>\<open>None\<close>, and each operation on it that raises in Python is a branch
    of the model. The remaining columns (keys and names, \<^verbatim>\<open>Product.price\<close>), which the
    methods only copy, are plain values.
  \<^item> \<^verbatim>\<open>Integer\<close> columns are \<open>int\<close>, \<^verbatim>\<open>String\<close> columns are \<open>string\<close>. \<^verbatim>\<open>Float\<close>
    columns are \<open>real\<close>: arithmetic on prices is exact, rounding of binary floating
    point is not modelled.
  \<^item> A relationship the source tests before use (\<^verbatim>\<open>self.supplier\<close>, \<^verbatim>\<open>self.product\<close>) is
    an \<open>option\<close> of the related entity; the collection \<^verbatim>\<open>Order.items\<close> is a list.
    Relationships are taken as loaded: reading one runs no query.
  \<^item> A Python exception raised by the program's own expressions is a value of \<open>py_error\<close>
    on the left of a sum.
\<close>

datatype datetime = DateTime int

datatype py_error = TypeError | AttributeError | IndexError | IntegrityError | ValidationError

text \<open>
  The transfer classes \<^verbatim>\<open>OrderItemODT\<close> and \<^verbatim>\<open>OrderODT\<close>. A field annotated
  \<^verbatim>\<open>Optional[...] = None\<close> is an \<open>option\<close>; the others are plain values. They are declared
  ahead of the entity classes so that the unqualified field names of the rest of the theory
  denote the columns of the entities; the fields of the transfer classes are always written
  with their class (\<open>OrderItemODT.price\<close>). The field \<^verbatim>\<open>total\<close> is \<open>total_line\<close>.
\<close>

record OrderItemODT =
  id_col :: "int option"
  product_id :: int
  product_name :: "string option"
  quantity :: int
  price :: real
  total_line :: "real option"
  created_at :: "datetime option"
  updated_at :: "datetime option"

record OrderODT =
  id_col :: "int option"
  customer_name :: string
  customer_phone :: "string option"
  customer_email :: "string option"
  status :: string
  total_amount :: real
  items :: "OrderItemODT list"
  created_at :: "datetime option"
  updated_at :: "datetime option"

text \<open>\<^verbatim>\<open>class BaseTable(Base)\<close>: \<^verbatim>\<open>id\<close>, \<^verbatim>\<open>created_at\<close>, \<^verbatim>\<open>updated_at\<close>.\<close>

record BaseTable =
  id_col :: int
  created_at :: "datetime option"
  updated_at :: "datetime option"

text \<open>\<^verbatim>\<open>class Supplier(BaseTable)\<close>.\<close>

record Supplier = BaseTable +
  name :: string
  contact_person :: "string option"
  phone :: "string option"
  email :: "string option"
  address :: "string option"

text \<open>\<^verbatim>\<open>class Product(BaseTable)\<close>; \<open>supplier\<close> is the relationship of the same name.\<close>

record Product = BaseTable +
  name :: string
  description :: "string option"
  price :: real
  quantity :: "int option"
  supplier_id :: int
  supplier :: "Supplier option"

text \<open>\<^verbatim>\<open>class OrderItem(BaseTable)\<close>; \<open>product\<close> is the relationship of the same name.\<close>

record OrderItem = BaseTable +
  order_id :: int
  product_id :: int
  quantity :: "int option"
  price :: "real option"
  product :: "Product option"

text \<open>\<^verbatim>\<open>class Order(BaseTable)\<close>; \<open>items\<close> is the relationship collection.\<close>

record Order = BaseTable +
  customer_name :: string
  customer_phone :: "string option"
  customer_email :: "string option"
  status :: "string option"
  total_amount :: "real option"
  items :: "OrderItem list"

section \<open>\<^verbatim>\<open>Order.calculate_total\<close>\<close>

text \<open>
  \<^verbatim>\<open>item.price * item.quantity\<close>: the product of a float and an integer; when either
  operand is \<^verbatim>\<open>None\<close> the multiplication raises \<^verbatim>\<open>TypeError\<close>.
\<close>

definition py_mul :: "real option \<Rightarrow> int option \<Rightarrow> py_error + real" where
  "py_mul a b =
     (case a of
        None \<Rightarrow> Inl TypeError
      | Some x \<Rightarrow> (case b of None \<Rightarrow> Inl TypeError | Some n \<Rightarrow> Inr (x * real_of_int n)))"

definition line_total :: "OrderItem \<Rightarrow> py_error + real" where
  "line_total item = py_mul (OrderItem.price item) (OrderItem.quantity item)"

text \<open>
  \<^verbatim>\<open>sum(f(x) for x in xs)\<close> starts from \<open>0\<close>, takes the terms of the generator from left
  to right and adds each to the running total; a term that raises ends the summation with
  its exception. \<open>py_sum f acc xs\<close> is the summation with running total \<open>acc\<close>.
\<close>

fun py_sum :: "('a \<Rightarrow> py_error + real) \<Rightarrow> real \<Rightarrow> 'a list \<Rightarrow> py_error + real" where
  "py_sum f acc [] = Inr acc"
| "py_sum f acc (x # xs) =
     (case f x of
        Inl e \<Rightarrow> Inl e
      | Inr t \<Rightarrow> py_sum f (acc + t) xs)"

text \<open>
  The method stores the sum in \<^verbatim>\<open>self.total_amount\<close> and returns it; the model returns
  the updated order together with the returned number. When the summation raises, the
  assignment is not reached and the exception leaves the method.
\<close>

definition calculate_total :: "Order \<Rightarrow> py_error + Order \<times> real" where
  "calculate_total self =
     (case py_sum line_total 0 (items self) of
        Inl e \<Rightarrow> Inl e
      | Inr s \<Rightarrow> Inr (self\<lparr>total_amount := Some s\<rparr>, s))"

text \<open>The scenario of the specification: one line of two units at 10.0.\<close>

definition scenario_item :: OrderItem where
  "scenario_item = \<lparr>id_col = 1, created_at = Some (DateTime 0), updated_at = Some (DateTime 0),
     order_id = 1, product_id = 1, quantity = Some 2, price = Some 10, product = None\<rparr>"

definition scenario_order :: Order where
  "scenario_order = \<lparr>id_col = 1, created_at = Some (DateTime 0), updated_at = Some (DateTime 0),
     customer_name = ''Jane'', customer_phone = None, customer_email = None,
     status = Some ''created'', total_amount = Some 0, items = [scenario_item]\<rparr>"

section \<open>\<^verbatim>\<open>to_dict\<close>\<close>

text \<open>
  Python values that occur in the dictionaries. A dictionary literal is the list of its
  entries in the order written; \<open>map_of\<close> reads a key.
\<close>

datatype pyval = PNone | PInt int | PFloat real | PStr string | PDateTime datetime

definition py_opt :: "('a \<Rightarrow> pyval) \<Rightarrow> 'a option \<Rightarrow> pyval" where
  "py_opt f v = (case v of None \<Rightarrow> PNone | Some x \<Rightarrow> f x)"

text \<open>
  \<^verbatim>\<open>self.created_at.isoformat()\<close>: on \<^verbatim>\<open>None\<close> the attribute lookup raises
  \<^verbatim>\<open>AttributeError\<close>. The formatting function of the \<^verbatim>\<open>datetime\<close> library is the
  parameter \<open>fmt\<close>.
\<close>

definition isoformat :: "(datetime \<Rightarrow> string) \<Rightarrow> datetime option \<Rightarrow> py_error + pyval" where
  "isoformat fmt d = (case d of None \<Rightarrow> Inl AttributeError | Some t \<Rightarrow> Inr (PStr (fmt t)))"

text \<open>
  \<^verbatim>\<open>Product.to_dict\<close>. The entries are evaluated in the order written; the only
  expressions that can raise are the two \<^verbatim>\<open>isoformat\<close> calls.
\<close>

definition Product_to_dict ::
    "(datetime \<Rightarrow> string) \<Rightarrow> Product \<Rightarrow> py_error + (string \<times> pyval) list" where
  "Product_to_dict fmt self =
     (case isoformat fmt (created_at self) of
        Inl e \<Rightarrow> Inl e
      | Inr c \<Rightarrow>
          (case isoformat fmt (updated_at self) of
             Inl e \<Rightarrow> Inl e
           | Inr u \<Rightarrow>
               Inr [(''id'', PInt (id_col self)),
                    (''name'', PStr (Product.name self)),
                    (''description'', py_opt PStr (description self)),
                    (''price'', PFloat (Product.price self)),
                    (''quantity'', py_opt PInt (Product.quantity self)),
                    (''supplier_id'', PInt (supplier_id self)),
                    (''supplier_name'',
                       (case supplier self of Some s \<Rightarrow> PStr (Supplier.name s) | None \<Rightarrow> PNone)),
                    (''created_at'', c),
                    (''updated_at'', u)]))"

text \<open>
  \<^verbatim>\<open>OrderItem.to_dict\<close>. The entry \<^verbatim>\<open>total\<close> (line 186) is evaluated before the two
  timestamps are formatted, so a missing price or quantity raises \<^verbatim>\<open>TypeError\<close> first.
\<close>

definition OrderItem_to_dict ::
    "(datetime \<Rightarrow> string) \<Rightarrow> OrderItem \<Rightarrow> py_error + (string \<times> pyval) list" where
  "OrderItem_to_dict fmt self =
     (case py_mul (OrderItem.price self) (OrderItem.quantity self) of
        Inl e \<Rightarrow> Inl e
      | Inr t \<Rightarrow>
     (case isoformat fmt (created_at self) of
        Inl e \<Rightarrow> Inl e
      | Inr c \<Rightarrow>
          (case isoformat fmt (updated_at self) of
             Inl e \<Rightarrow> Inl e
           | Inr u \<Rightarrow>
               Inr [(''id'', PInt (id_col self)),
                    (''order_id'', PInt (order_id self)),
                    (''product_id'', PInt (product_id self)),
                    (''product_name'',
                       (case product self of Some p \<Rightarrow> PStr (Product.name p) | None \<Rightarrow> PNone)),
                    (''quantity'', py_opt PInt (OrderItem.quantity self)),
                    (''price'', py_opt PFloat (OrderItem.price self)),
                    (''total'', PFloat t),
                    (''created_at'', c),
                    (''updated_at'', u)])))"

text \<open>Sample rows: a supplier and a product of it.\<close>

definition acme :: Supplier where
  "acme = \<lparr>id_col = 1, created_at = Some (DateTime 0), updated_at = Some (DateTime 0),
     Supplier.name = ''Acme'', contact_person = None, phone = None, email = None, address = None\<rparr>"

definition widget :: Product where
  "widget = \<lparr>id_col = 1, created_at = Some (DateTime 0), updated_at = Some (DateTime 0),
     Product.name = ''Widget'', description = None, Product.price = 10,
     Product.quantity = Some 5, supplier_id = 1,
     supplier = Some acme\<rparr>"

definition iso_sample :: "datetime \<Rightarrow> string" where
  "iso_sample t = ''1970-01-01T00:00:00''"

section \<open>Blocks that may raise\<close>

text \<open>
  The result of running a block of statements or a library call: it completes, or it raises
  \<open>e\<close>. What is raised is any instance of \<^verbatim>\<open>BaseException\<close>; the two handlers of the
  program are \<^verbatim>\<open>except Exception\<close> clauses, which match the instances of class
  \<^verbatim>\<open>Exception\<close> and let the others (\<^verbatim>\<open>KeyboardInterrupt\<close>, \<^verbatim>\<open>SystemExit\<close>,
  \<^verbatim>\<open>GeneratorExit\<close>) pass. The models of the handlers take that test as the argument
  \<open>is_exc\<close>. A run is the list of the calls made, in order, with the outcome.
\<close>

datatype 'e outcome = Returns | Raises 'e

type_synonym ('c, 'e) run = "'c list \<times> 'e outcome"

text \<open>Exceptions by class, for the examples: \<open>Exception n\<close> is an instance of
  \<^verbatim>\<open>Exception\<close> or of its subclass named \<open>n\<close>.\<close>

datatype py_exception = Exception string | KeyboardInterrupt | SystemExit | GeneratorExit

fun is_Exception :: "py_exception \<Rightarrow> bool" where
  "is_Exception (Exception n) = True"
| "is_Exception KeyboardInterrupt = False"
| "is_Exception SystemExit = False"
| "is_Exception GeneratorExit = False"

text \<open>Sequential composition: the second block runs only when the first completes.\<close>

definition seq :: "('c, 'e) run \<Rightarrow> ('c, 'e) run \<Rightarrow> ('c, 'e) run" where
  "seq r k = (case snd r of Returns \<Rightarrow> (fst r @ fst k, snd k) | Raises e \<Rightarrow> (fst r, Raises e))"

text \<open>\<^verbatim>\<open>try: ... finally: f\<close>: the block \<open>f\<close> runs in either case; the outcome of the
  \<^verbatim>\<open>try\<close> part stands unless \<open>f\<close> itself raises.\<close>

definition try_finally :: "('c, 'e) run \<Rightarrow> ('c, 'e) run \<Rightarrow> ('c, 'e) run" where
  "try_finally r f = (fst r @ fst f, (case snd f of Returns \<Rightarrow> snd r | Raises e \<Rightarrow> Raises e))"

section \<open>\<^verbatim>\<open>DatabaseConnection.get_session\<close>\<close>

text \<open>
  The calls the scope makes on the session it created; the outcome of each is given by the
  environment. The body of the \<^verbatim>\<open>with\<close> statement runs at the \<^verbatim>\<open>yield\<close>; its outcome
  is the argument \<open>body\<close>, and an exception of the body is raised at the \<^verbatim>\<open>yield\<close>, inside
  the \<^verbatim>\<open>try\<close>. \<^verbatim>\<open>session.commit()\<close> is inside the \<^verbatim>\<open>try\<close> as well, so a commit that
  raises is handled like the body. The handler runs for instances of \<^verbatim>\<open>Exception\<close> only:
  it calls \<^verbatim>\<open>rollback\<close> and, when that completes, re-raises; \<^verbatim>\<open>close\<close> runs last in every
  case, and an exception of \<^verbatim>\<open>rollback\<close> or \<^verbatim>\<open>close\<close> replaces the one in flight.
\<close>

datatype session_call = Commit | Rollback | Close

record 'e session_env =
  commit_r :: "'e outcome"
  rollback_r :: "'e outcome"
  close_r :: "'e outcome"

definition get_session ::
    "('e \<Rightarrow> bool) \<Rightarrow> 'e session_env \<Rightarrow> 'e outcome \<Rightarrow> (session_call, 'e) run" where
  "get_session is_exc env body =
     try_finally
       (case seq ([], body) ([Commit], commit_r env) of
          (calls, Returns) \<Rightarrow> (calls, Returns)
        | (calls, Raises e) \<Rightarrow>
            (if is_exc e
             then seq (calls @ [Rollback], rollback_r env) ([], Raises e)
             else (calls, Raises e)))
       ([Close], close_r env)"

text \<open>A session all of whose calls complete.\<close>

definition session_ok :: "'e session_env" where
  "session_ok = \<lparr>commit_r = Returns, rollback_r = Returns, close_r = Returns\<rparr>"

section \<open>\<^verbatim>\<open>create_database\<close>\<close>








section \<open>\<^verbatim>\<open>BaseTable.__init__\<close>\<close>




text \<open>
  The names each class provides: the ones the source declares, after the names that the
  declarative base and \<^verbatim>\<open>object\<close> provide (\<^verbatim>\<open>metadata\<close>, \<^verbatim>\<open>registry\<close>,
  \<^verbatim>\<open>__class__\<close>, ...), which are not part of the source and are the argument
  \<open>inherited\<close>.
\<close>

definition BaseTable_names :: "string list \<Rightarrow> string list" where
  "BaseTable_names inherited =
     inherited @ [''__abstract__'', ''__tablename__'', ''id'', ''created_at'', ''updated_at'',
       ''__init__'', ''to_dict'']"


definition Product_names :: "string list \<Rightarrow> string list" where
  "Product_names inherited =
     BaseTable_names inherited
       @ [''name'', ''description'', ''price'', ''quantity'', ''supplier_id'', ''supplier'',
          ''order_items'']"

definition Order_names :: "string list \<Rightarrow> string list" where
  "Order_names inherited =
     BaseTable_names inherited
       @ [''customer_name'', ''customer_phone'', ''customer_email'', ''status'',
          ''total_amount'', ''items'', ''calculate_total'']"

definition OrderItem_names :: "string list \<Rightarrow> string list" where
  "OrderItem_names inherited =
     BaseTable_names inherited
       @ [''order_id'', ''product_id'', ''quantity'', ''price'', ''order'', ''product'']"



section \<open>Changing the items of an order; column defaults\<close>

text \<open>
  The source attaches no listener to \<^verbatim>\<open>Order.items\<close> and defines no setter on
  \<^verbatim>\<open>OrderItem\<close>: changing the collection is a plain list operation on the attribute
  \<^verbatim>\<open>items\<close>. \<open>items_append\<close> is \<^verbatim>\<open>order.items.append(item)\<close> (and, applied in turn,
  the \<^verbatim>\<open>extend\<close> of line 323), \<open>items_pop\<close> is \<^verbatim>\<open>order.items.pop(i)\<close> for an index
  counted from the front, which raises \<^verbatim>\<open>IndexError\<close> out of range, and
  \<open>item_set_quantity\<close> is \<^verbatim>\<open>order.items[i].quantity = q\<close>.
\<close>

definition items_append :: "Order \<Rightarrow> OrderItem \<Rightarrow> Order" where
  "items_append self item = self\<lparr>items := items self @ [item]\<rparr>"

definition items_pop :: "Order \<Rightarrow> nat \<Rightarrow> py_error + Order" where
  "items_pop self i =
     (if i < length (items self)
      then Inr (self\<lparr>items := take i (items self) @ drop (Suc i) (items self)\<rparr>)
      else Inl IndexError)"

definition item_set_quantity :: "Order \<Rightarrow> nat \<Rightarrow> int \<Rightarrow> py_error + Order" where
  "item_set_quantity self i q =
     (if i < length (items self)
      then Inr (self\<lparr>items := (items self)[i := (items self ! i)\<lparr>quantity := Some q\<rparr>]\<rparr>)
      else Inl IndexError)"

text \<open>
  A column declared with \<^verbatim>\<open>default=d\<close> receives \<open>d\<close> at the INSERT when the attribute
  holds no value. \<open>Order_insert_defaults\<close> is what the first flush does to a pending
  order (lines 81-82 and 146-147); \<open>now\<close> is the reading of \<^verbatim>\<open>datetime.utcnow\<close>.
\<close>

definition column_default :: "'a \<Rightarrow> 'a option \<Rightarrow> 'a option" where
  "column_default d v = (case v of None \<Rightarrow> Some d | Some x \<Rightarrow> Some x)"

definition Order_insert_defaults :: "datetime \<Rightarrow> Order \<Rightarrow> Order" where
  "Order_insert_defaults now self =
     self\<lparr>BaseTable.created_at := column_default now (BaseTable.created_at self),
          BaseTable.updated_at := column_default now (BaseTable.updated_at self),
          status := column_default ''created'' (status self),
          total_amount := column_default 0 (total_amount self)\<rparr>"

text \<open>A second line, for the examples: one unit at 5.0.\<close>

definition second_item :: OrderItem where
  "second_item = \<lparr>BaseTable.id_col = 2, created_at = Some (DateTime 0),
     updated_at = Some (DateTime 0),
     order_id = 1, product_id = 2, quantity = Some 1, price = Some 5, product = None\<rparr>"

section \<open>Projection into the transfer classes\<close>

text \<open>
  \<^verbatim>\<open>OrderODT.model_validate(order)\<close> with \<^verbatim>\<open>from_attributes = True\<close> reads, for every
  field of the transfer class, the attribute of that name from the instance. The
  attributes of a mapped instance that hold plain data are its columns:
  \<open>OrderItem_getattr\<close> and \<open>Order_getattr\<close> list them by name, and \<open>None\<close> says that the
  instance has no attribute of that name. (The relationships and methods are attributes as
  well; the only one a field is named after is \<^verbatim>\<open>Order.items\<close>, read directly below.)
\<close>

definition OrderItem_getattr :: "OrderItem \<Rightarrow> string \<Rightarrow> pyval option" where
  "OrderItem_getattr self =
     map_of [(''id'', PInt (BaseTable.id_col self)),
             (''created_at'', py_opt PDateTime (BaseTable.created_at self)),
             (''updated_at'', py_opt PDateTime (BaseTable.updated_at self)),
             (''order_id'', PInt (order_id self)),
             (''product_id'', PInt (OrderItem.product_id self)),
             (''quantity'', py_opt PInt (OrderItem.quantity self)),
             (''price'', py_opt PFloat (OrderItem.price self))]"

definition Order_getattr :: "Order \<Rightarrow> string \<Rightarrow> pyval option" where
  "Order_getattr self =
     map_of [(''id'', PInt (BaseTable.id_col self)),
             (''created_at'', py_opt PDateTime (BaseTable.created_at self)),
             (''updated_at'', py_opt PDateTime (BaseTable.updated_at self)),
             (''customer_name'', PStr (Order.customer_name self)),
             (''customer_phone'', py_opt PStr (Order.customer_phone self)),
             (''customer_email'', py_opt PStr (Order.customer_email self)),
             (''status'', py_opt PStr (Order.status self)),
             (''total_amount'', py_opt PFloat (Order.total_amount self))]"

text \<open>
  Validation of one value against the annotated type of a field. The values that reach it
  are those of the attribute lists above, which have the type of their column or are
  \<^verbatim>\<open>None\<close>; the conversions that the lax mode of the validation applies to values of
  other types (a numeric string, a float without fraction for an integer field) are not
  modelled. A \<^verbatim>\<open>None\<close> for a field that is not optional fails the validation.
\<close>

fun as_int :: "pyval \<Rightarrow> int option" where
  "as_int (PInt n) = Some n"
| "as_int _ = None"

fun as_float :: "pyval \<Rightarrow> real option" where
  "as_float (PFloat x) = Some x"
| "as_float (PInt n) = Some (real_of_int n)"
| "as_float _ = None"

fun as_str :: "pyval \<Rightarrow> string option" where
  "as_str (PStr x) = Some x"
| "as_str _ = None"

fun as_datetime :: "pyval \<Rightarrow> datetime option" where
  "as_datetime (PDateTime t) = Some t"
| "as_datetime _ = None"

text \<open>
  The three kinds of field. \<open>a\<close> is the result of the attribute lookup: a missing
  attribute leaves a field with a default at its default and fails a required field; a
  value of the wrong type fails the validation.
\<close>

definition field_optional :: "(pyval \<Rightarrow> 'a option) \<Rightarrow> pyval option \<Rightarrow> py_error + 'a option" where
  "field_optional conv a =
     (case a of
        None \<Rightarrow> Inr None
      | Some PNone \<Rightarrow> Inr None
      | Some v \<Rightarrow> (case conv v of Some x \<Rightarrow> Inr (Some x) | None \<Rightarrow> Inl ValidationError))"

definition field_default :: "(pyval \<Rightarrow> 'a option) \<Rightarrow> 'a \<Rightarrow> pyval option \<Rightarrow> py_error + 'a" where
  "field_default conv d a =
     (case a of
        None \<Rightarrow> Inr d
      | Some v \<Rightarrow> (case conv v of Some x \<Rightarrow> Inr x | None \<Rightarrow> Inl ValidationError))"

definition field_required :: "(pyval \<Rightarrow> 'a option) \<Rightarrow> pyval option \<Rightarrow> py_error + 'a" where
  "field_required conv a =
     (case a of
        None \<Rightarrow> Inl ValidationError
      | Some v \<Rightarrow> (case conv v of Some x \<Rightarrow> Inr x | None \<Rightarrow> Inl ValidationError))"

definition and_then :: "'e + 'a \<Rightarrow> ('a \<Rightarrow> 'e + 'b) \<Rightarrow> 'e + 'b" where
  "and_then r k = (case r of Inl e \<Rightarrow> Inl e | Inr x \<Rightarrow> k x)"

fun validate_all :: "('a \<Rightarrow> 'e + 'b) \<Rightarrow> 'a list \<Rightarrow> 'e + 'b list" where
  "validate_all f [] = Inr []"
| "validate_all f (x # xs) =
     and_then (f x) (\<lambda>y. and_then (validate_all f xs) (\<lambda>ys. Inr (y # ys)))"

text \<open>\<^verbatim>\<open>OrderItemODT\<close>, field by field as declared (lines 223-230).\<close>

definition OrderItemODT_model_validate :: "OrderItem \<Rightarrow> py_error + OrderItemODT" where
  "OrderItemODT_model_validate obj =
     and_then (field_optional as_int (OrderItem_getattr obj ''id'')) (\<lambda>f_id.
     and_then (field_required as_int (OrderItem_getattr obj ''product_id'')) (\<lambda>f_product_id.
     and_then (field_optional as_str (OrderItem_getattr obj ''product_name'')) (\<lambda>f_product_name.
     and_then (field_default as_int 1 (OrderItem_getattr obj ''quantity'')) (\<lambda>f_quantity.
     and_then (field_required as_float (OrderItem_getattr obj ''price'')) (\<lambda>f_price.
     and_then (field_optional as_float (OrderItem_getattr obj ''total'')) (\<lambda>f_total.
     and_then (field_optional as_datetime (OrderItem_getattr obj ''created_at'')) (\<lambda>f_created_at.
     and_then (field_optional as_datetime (OrderItem_getattr obj ''updated_at'')) (\<lambda>f_updated_at.
       Inr \<lparr>OrderItemODT.id_col = f_id, OrderItemODT.product_id = f_product_id,
            product_name = f_product_name, OrderItemODT.quantity = f_quantity,
            OrderItemODT.price = f_price, total_line = f_total,
            OrderItemODT.created_at = f_created_at,
            OrderItemODT.updated_at = f_updated_at\<rparr>))))))))"

text \<open>\<^verbatim>\<open>OrderODT\<close>, field by field as declared (lines 237-245).\<close>

definition OrderODT_model_validate :: "Order \<Rightarrow> py_error + OrderODT" where
  "OrderODT_model_validate obj =
     and_then (field_optional as_int (Order_getattr obj ''id'')) (\<lambda>f_id.
     and_then (field_required as_str (Order_getattr obj ''customer_name'')) (\<lambda>f_customer_name.
     and_then (field_optional as_str (Order_getattr obj ''customer_phone'')) (\<lambda>f_customer_phone.
     and_then (field_optional as_str (Order_getattr obj ''customer_email'')) (\<lambda>f_customer_email.
     and_then (field_default as_str ''created'' (Order_getattr obj ''status'')) (\<lambda>f_status.
     and_then (field_default as_float 0 (Order_getattr obj ''total_amount'')) (\<lambda>f_total_amount.
     and_then (validate_all OrderItemODT_model_validate (Order.items obj)) (\<lambda>f_items.
     and_then (field_optional as_datetime (Order_getattr obj ''created_at'')) (\<lambda>f_created_at.
     and_then (field_optional as_datetime (Order_getattr obj ''updated_at'')) (\<lambda>f_updated_at.
       Inr \<lparr>OrderODT.id_col = f_id, OrderODT.customer_name = f_customer_name,
            OrderODT.customer_phone = f_customer_phone,
            OrderODT.customer_email = f_customer_email, OrderODT.status = f_status,
            OrderODT.total_amount = f_total_amount, OrderODT.items = f_items,
            OrderODT.created_at = f_created_at,
            OrderODT.updated_at = f_updated_at\<rparr>)))))))))"

section \<open>The relational store\<close>

text \<open>
  Modelled from the spec: the relational store and its INSERT and DELETE, which the
  database engine carries out and the repository does not contain. The store holds the
  rows of the four tables; the operations enforce what the specification states and the
  entity classes declare: \<^verbatim>\<open>Supplier.name\<close> is unique (line 96), deleting a supplier
  cascades to its products (lines 102, 122), deleting an order cascades to its items
  (lines 149, 170), and the reference from an order item to its product has no cascade
  (line 171), so a product that an order item references cannot be deleted. Only the
  columns of a row matter here; the relationship fields are not consulted.
\<close>

record store =
  suppliers :: "Supplier list"
  products :: "Product list"
  orders :: "Order list"
  order_items :: "OrderItem list"

text \<open>Modelled from the spec: INSERT of a supplier row; the primary key and the name are
  unique.\<close>

definition insert_supplier :: "store \<Rightarrow> Supplier \<Rightarrow> py_error + store" where
  "insert_supplier db s =
     (if Supplier.name s \<in> Supplier.name ` set (suppliers db)
         \<or> BaseTable.id_col s \<in> BaseTable.id_col ` set (suppliers db)
      then Inl IntegrityError
      else Inr (db\<lparr>suppliers := suppliers db @ [s]\<rparr>))"

text \<open>Modelled from the spec: DELETE of the product with key \<open>pid\<close>; the reference
  \<^verbatim>\<open>OrderItem.product_id\<close> has no cascade.\<close>

definition delete_product :: "store \<Rightarrow> int \<Rightarrow> py_error + store" where
  "delete_product db pid =
     (if pid \<in> OrderItem.product_id ` set (order_items db)
      then Inl IntegrityError
      else Inr (db\<lparr>products := filter (\<lambda>p. BaseTable.id_col p \<noteq> pid) (products db)\<rparr>))"

text \<open>Modelled from the spec: the products with the keys \<open>pids\<close> are deleted one after the
  other; the first failure fails the whole statement.\<close>

fun delete_products :: "store \<Rightarrow> int list \<Rightarrow> py_error + store" where
  "delete_products db [] = Inr db"
| "delete_products db (pid # pids) =
     (case delete_product db pid of
        Inl e \<Rightarrow> Inl e
      | Inr db' \<Rightarrow> delete_products db' pids)"

text \<open>Modelled from the spec: DELETE of the supplier with key \<open>sid\<close>: its products are
  deleted with it.\<close>

definition delete_supplier :: "store \<Rightarrow> int \<Rightarrow> py_error + store" where
  "delete_supplier db sid =
     (case delete_products db
             (map BaseTable.id_col (filter (\<lambda>p. supplier_id p = sid) (products db))) of
        Inl e \<Rightarrow> Inl e
      | Inr db' \<Rightarrow>
          Inr (db'\<lparr>suppliers := filter (\<lambda>s. BaseTable.id_col s \<noteq> sid) (suppliers db')\<rparr>))"

text \<open>Modelled from the spec: DELETE of the order with key \<open>oid\<close>: its items are deleted
  with it; nothing references an order item.\<close>

definition delete_order :: "store \<Rightarrow> int \<Rightarrow> py_error + store" where
  "delete_order db oid =
     Inr (db\<lparr>orders := filter (\<lambda>x. BaseTable.id_col x \<noteq> oid) (orders db),
             order_items := filter (\<lambda>i. order_id i \<noteq> oid) (order_items db)\<rparr>)"

text \<open>
  A unit of work on the store, as \<open>get_session\<close> runs it: the statements take effect at
  the commit; when they fail, the commit raises, the session is rolled back and the store
  is the one before. Every \<open>py_error\<close> is an instance of \<^verbatim>\<open>Exception\<close>; the rollback and
  the close of the session complete.
\<close>

definition unit_of_work :: "(store \<Rightarrow> py_error + store) \<Rightarrow> store \<Rightarrow> store \<times> py_error outcome" where
  "unit_of_work stmt db =
     (case stmt db of
        Inl e \<Rightarrow>
          (db, snd (get_session (\<lambda>e. True) (session_ok\<lparr>commit_r := Raises e\<rparr>) Returns))
      | Inr db' \<Rightarrow> (db', snd (get_session (\<lambda>e. True) session_ok Returns)))"

text \<open>Referential integrity: every reference points to a row of the store.\<close>

definition references_ok :: "store \<Rightarrow> bool" where
  "references_ok db =
     (list_all (\<lambda>p. supplier_id p \<in> BaseTable.id_col ` set (suppliers db)) (products db)
      \<and> list_all (\<lambda>i. order_id i \<in> BaseTable.id_col ` set (orders db)
                      \<and> OrderItem.product_id i \<in> BaseTable.id_col ` set (products db))
           (order_items db))"

text \<open>A store for the examples: Acme, its product Widget, and one order of Jane with one
  item that references Widget.\<close>

definition empty_store :: store where
  "empty_store = \<lparr>suppliers = [], products = [], orders = [], order_items = []\<rparr>"

definition acme_store :: store where
  "acme_store = \<lparr>suppliers = [acme], products = [widget], orders = [], order_items = []\<rparr>"

definition acme_store_no_products :: store where
  "acme_store_no_products = \<lparr>suppliers = [acme], products = [], orders = [], order_items = []\<rparr>"

definition jane_store :: store where
  "jane_store = \<lparr>suppliers = [acme], products = [widget], orders = [scenario_order],
     order_items = [scenario_item]\<rparr>"

section \<open>Theorems\<close>

subsection \<open>\<^verbatim>\<open>calculate_total\<close>\<close>

lemma py_sum_returns:
  "\<forall>x \<in> set xs. f x = Inr (g x) \<Longrightarrow> py_sum f acc xs = Inr (acc + sum_list (map g xs))"
  by (induction xs arbitrary: acc) (simp_all add: add.assoc)

lemma line_total_set:
  "OrderItem.price item \<noteq> None \<and> OrderItem.quantity item \<noteq> None \<Longrightarrow>
     line_total item
       = Inr (the (OrderItem.price item) * real_of_int (the (OrderItem.quantity item)))"
  by (auto simp: line_total_def py_mul_def)

lemma calculate_total_returns:
  assumes "\<forall>item \<in> set (items self).
      OrderItem.price item \<noteq> None \<and> OrderItem.quantity item \<noteq> None"
  shows "calculate_total self =
     Inr (self\<lparr>total_amount := Some (\<Sum>item\<leftarrow>items self.
              the (OrderItem.price item) * real_of_int (the (OrderItem.quantity item)))\<rparr>,
          (\<Sum>item\<leftarrow>items self.
              the (OrderItem.price item) * real_of_int (the (OrderItem.quantity item))))"
proof -
  from assms have "\<forall>item \<in> set (items self). line_total item
      = Inr (the (OrderItem.price item) * real_of_int (the (OrderItem.quantity item)))"
    by (simp add: line_total_set)
  then have "py_sum line_total 0 (items self)
      = Inr (0 + (\<Sum>item\<leftarrow>items self.
              the (OrderItem.price item) * real_of_int (the (OrderItem.quantity item))))"
    by (rule py_sum_returns)
  then show ?thesis by (simp add: calculate_total_def)
qed

text \<open>
  C1 as stated, for every order, fails: an item that was constructed without a quantity
  and not flushed holds \<^verbatim>\<open>None\<close> there (the default of line 172 is applied at the
  INSERT), the multiplication of line 152 raises \<^verbatim>\<open>TypeError\<close>, and no total is stored
  or returned.
\<close>

theorem calculate_total_sum_counterexample:
  "calculate_total (scenario_order\<lparr>items := [scenario_item\<lparr>quantity := None\<rparr>]\<rparr>) = Inl TypeError"
  by (simp add: calculate_total_def line_total_def py_mul_def scenario_item_def)

text \<open>
  C1, amended. For every order whose items each hold a price and a quantity (neither is
  \<^verbatim>\<open>None\<close>), \<open>calculate_total\<close> stores in \<open>total_amount\<close> the sum over the order's items
  of price times quantity and returns that same number, leaving every other field as it
  was; with no items the number is \<open>0\<close>.
\<close>

theorem calculate_total_sum:
  "(\<forall>item \<in> set (items self).
       OrderItem.price item \<noteq> None \<and> OrderItem.quantity item \<noteq> None) \<longrightarrow>
     calculate_total self =
       Inr (self\<lparr>total_amount := Some (\<Sum>item\<leftarrow>items self.
                the (OrderItem.price item) * real_of_int (the (OrderItem.quantity item)))\<rparr>,
            (\<Sum>item\<leftarrow>items self.
                the (OrderItem.price item) * real_of_int (the (OrderItem.quantity item))))
     \<and> (items self = [] \<longrightarrow> calculate_total self = Inr (self\<lparr>total_amount := Some 0\<rparr>, 0))"
proof
  assume set: "\<forall>item \<in> set (items self).
       OrderItem.price item \<noteq> None \<and> OrderItem.quantity item \<noteq> None"
  then have ret: "calculate_total self =
       Inr (self\<lparr>total_amount := Some (\<Sum>item\<leftarrow>items self.
                the (OrderItem.price item) * real_of_int (the (OrderItem.quantity item)))\<rparr>,
            (\<Sum>item\<leftarrow>items self.
                the (OrderItem.price item) * real_of_int (the (OrderItem.quantity item))))"
    by (rule calculate_total_returns)
  have "items self = [] \<longrightarrow> calculate_total self = Inr (self\<lparr>total_amount := Some 0\<rparr>, 0)"
    by (simp add: calculate_total_def)
  with ret show "calculate_total self =
       Inr (self\<lparr>total_amount := Some (\<Sum>item\<leftarrow>items self.
                the (OrderItem.price item) * real_of_int (the (OrderItem.quantity item)))\<rparr>,
            (\<Sum>item\<leftarrow>items self.
                the (OrderItem.price item) * real_of_int (the (OrderItem.quantity item))))
     \<and> (items self = [] \<longrightarrow> calculate_total self = Inr (self\<lparr>total_amount := Some 0\<rparr>, 0))"
    by simp
qed

theorem calculate_total_sum_witness:
  "calculate_total scenario_order = Inr (scenario_order\<lparr>total_amount := Some 20\<rparr>, 20)
   \<and> calculate_total (scenario_order\<lparr>items := []\<rparr>)
       = Inr (scenario_order\<lparr>items := [], total_amount := Some 0\<rparr>, 0)"
proof -
  have set: "\<forall>item \<in> set (items scenario_order).
       OrderItem.price item \<noteq> None \<and> OrderItem.quantity item \<noteq> None"
    by (simp add: scenario_order_def scenario_item_def)
  have none: "\<forall>item \<in> set (items (scenario_order\<lparr>items := []\<rparr>)).
       OrderItem.price item \<noteq> None \<and> OrderItem.quantity item \<noteq> None"
    by simp
  from set calculate_total_sum [of scenario_order]
  have "calculate_total scenario_order =
       Inr (scenario_order\<lparr>total_amount := Some (\<Sum>item\<leftarrow>items scenario_order.
                the (OrderItem.price item) * real_of_int (the (OrderItem.quantity item)))\<rparr>,
            (\<Sum>item\<leftarrow>items scenario_order.
                the (OrderItem.price item) * real_of_int (the (OrderItem.quantity item))))"
    by blast
  moreover have "(\<Sum>item\<leftarrow>items scenario_order.
       the (OrderItem.price item) * real_of_int (the (OrderItem.quantity item))) = 20"
    by (simp add: scenario_order_def scenario_item_def)
  moreover from none calculate_total_sum [of "scenario_order\<lparr>items := []\<rparr>"]
  have "calculate_total (scenario_order\<lparr>items := []\<rparr>)
       = Inr (scenario_order\<lparr>items := [], total_amount := Some 0\<rparr>, 0)"
    by simp
  ultimately show ?thesis by simp
qed

subsection \<open>\<^verbatim>\<open>to_dict\<close>\<close>

lemma isoformat_Some: "isoformat fmt (Some t) = Inr (PStr (fmt t))"
  by (simp add: isoformat_def)

lemma isoformat_None: "isoformat fmt None = Inl AttributeError"
  by (simp add: isoformat_def)

lemma py_mul_Some: "py_mul (Some x) (Some n) = Inr (x * real_of_int n)"
  by (simp add: py_mul_def)

lemma py_mul_None: "py_mul a None = Inl TypeError \<and> py_mul None b = Inl TypeError"
  by (simp add: py_mul_def split: option.splits)

lemma Product_to_dict_returns:
  assumes "created_at p = Some c" and "updated_at p = Some u"
  shows "Product_to_dict fmt p =
     Inr [(''id'', PInt (id_col p)),
          (''name'', PStr (Product.name p)),
          (''description'', py_opt PStr (description p)),
          (''price'', PFloat (Product.price p)),
          (''quantity'', py_opt PInt (Product.quantity p)),
          (''supplier_id'', PInt (supplier_id p)),
          (''supplier_name'', (case supplier p of Some s \<Rightarrow> PStr (Supplier.name s) | None \<Rightarrow> PNone)),
          (''created_at'', PStr (fmt c)),
          (''updated_at'', PStr (fmt u))]"
  using assms by (simp add: Product_to_dict_def isoformat_Some)

lemma OrderItem_to_dict_returns:
  assumes "OrderItem.price i = Some x" and "OrderItem.quantity i = Some n"
    and "created_at i = Some c" and "updated_at i = Some u"
  shows "OrderItem_to_dict fmt i =
     Inr [(''id'', PInt (id_col i)),
          (''order_id'', PInt (order_id i)),
          (''product_id'', PInt (product_id i)),
          (''product_name'', (case product i of Some p \<Rightarrow> PStr (Product.name p) | None \<Rightarrow> PNone)),
          (''quantity'', PInt n),
          (''price'', PFloat x),
          (''total'', PFloat (x * real_of_int n)),
          (''created_at'', PStr (fmt c)),
          (''updated_at'', PStr (fmt u))]"
  using assms by (simp add: OrderItem_to_dict_def isoformat_Some py_mul_Some py_opt_def)

text \<open>
  C7 as stated, for every product and every order item, fails. \<^verbatim>\<open>Product.to_dict\<close>
  formats both timestamps without a guard, so for a product whose timestamps are
  \<^verbatim>\<open>None\<close> (an instance that has not been flushed yet) the call raises
  \<^verbatim>\<open>AttributeError\<close> and produces no dictionary, although the supplier is attached.
  \<^verbatim>\<open>OrderItem.to_dict\<close> multiplies price and quantity without a guard, so for an item
  without quantity the call raises \<^verbatim>\<open>TypeError\<close>, although the product is attached and
  both timestamps are set.
\<close>

theorem to_dict_denormalized_counterexample:
  "supplier (widget\<lparr>created_at := None, updated_at := None\<rparr>) = Some acme
   \<and> Product_to_dict iso_sample (widget\<lparr>created_at := None, updated_at := None\<rparr>)
       = Inl AttributeError
   \<and> product (scenario_item\<lparr>product := Some widget, quantity := None\<rparr>) = Some widget
   \<and> OrderItem_to_dict iso_sample (scenario_item\<lparr>product := Some widget, quantity := None\<rparr>)
       = Inl TypeError"
  by (simp add: widget_def scenario_item_def Product_to_dict_def OrderItem_to_dict_def
      isoformat_None py_mul_None)

text \<open>
  C7, amended. For every product whose two timestamps are set, \<open>Product_to_dict\<close> returns
  a dictionary whose entry \<^verbatim>\<open>supplier_name\<close> is the name of the attached supplier
  (\<^verbatim>\<open>None\<close> when none is attached); for every order item whose price, quantity and two
  timestamps are set, \<open>OrderItem_to_dict\<close> returns a dictionary whose entry
  \<^verbatim>\<open>product_name\<close> is the name of the attached product (\<^verbatim>\<open>None\<close> when none is attached)
  and whose entry \<^verbatim>\<open>total\<close> is price times quantity.
\<close>

theorem to_dict_denormalized:
  "(created_at p = Some c \<and> updated_at p = Some u \<longrightarrow>
      (\<exists>d. Product_to_dict fmt p = Inr d
           \<and> map_of d ''supplier_name''
               = Some (case supplier p of Some s \<Rightarrow> PStr (Supplier.name s) | None \<Rightarrow> PNone)))
   \<and> (OrderItem.price i = Some x \<and> OrderItem.quantity i = Some n
        \<and> created_at i = Some c' \<and> updated_at i = Some u' \<longrightarrow>
      (\<exists>d. OrderItem_to_dict fmt i = Inr d
           \<and> map_of d ''product_name''
               = Some (case product i of Some q \<Rightarrow> PStr (Product.name q) | None \<Rightarrow> PNone)
           \<and> map_of d ''total'' = Some (PFloat (x * real_of_int n))))"
  by (simp add: Product_to_dict_returns OrderItem_to_dict_returns)

theorem to_dict_denormalized_witness:
  "(\<exists>d. Product_to_dict iso_sample widget = Inr d
        \<and> map_of d ''supplier_name'' = Some (PStr ''Acme''))
   \<and> (\<exists>d. OrderItem_to_dict iso_sample (scenario_item\<lparr>product := Some widget\<rparr>) = Inr d
        \<and> map_of d ''product_name'' = Some (PStr ''Widget'')
        \<and> map_of d ''total'' = Some (PFloat 20))"
  using to_dict_denormalized [where p = widget and c = "DateTime 0" and u = "DateTime 0"
      and i = "scenario_item\<lparr>product := Some widget\<rparr>" and x = 10 and n = 2
      and c' = "DateTime 0" and u' = "DateTime 0" and fmt = iso_sample]
  by (simp add: widget_def acme_def scenario_item_def)

text \<open>
  C10 as stated fails: with the supplier unset and the timestamps unset (a product that
  was constructed and not flushed) \<^verbatim>\<open>Product.to_dict\<close> raises \<^verbatim>\<open>AttributeError\<close>
  instead of returning \<^verbatim>\<open>supplier_name = None\<close>; an order item without product raises
  \<^verbatim>\<open>AttributeError\<close> when a timestamp is unset and \<^verbatim>\<open>TypeError\<close> when its quantity is
  unset.
\<close>

theorem to_dict_absent_relationship_counterexample:
  "supplier (widget\<lparr>supplier := None, created_at := None, updated_at := None\<rparr>) = None
   \<and> Product_to_dict iso_sample (widget\<lparr>supplier := None, created_at := None, updated_at := None\<rparr>)
       = Inl AttributeError
   \<and> product (scenario_item\<lparr>created_at := None\<rparr>) = None
   \<and> OrderItem_to_dict iso_sample (scenario_item\<lparr>created_at := None\<rparr>) = Inl AttributeError
   \<and> product (scenario_item\<lparr>quantity := None\<rparr>) = None
   \<and> OrderItem_to_dict iso_sample (scenario_item\<lparr>quantity := None\<rparr>) = Inl TypeError"
  by (simp add: widget_def scenario_item_def Product_to_dict_def OrderItem_to_dict_def
      isoformat_None py_mul_None py_mul_Some)

text \<open>
  C10, amended. If a product's supplier reference is unset and its two timestamps are set,
  \<open>Product_to_dict\<close> returns a dictionary with \<^verbatim>\<open>supplier_name\<close> equal to \<^verbatim>\<open>None\<close>; if
  an order item's product reference is unset and its price, quantity and two timestamps
  are set, \<open>OrderItem_to_dict\<close> returns a dictionary with \<^verbatim>\<open>product_name\<close> equal to
  \<^verbatim>\<open>None\<close>.
\<close>

theorem to_dict_absent_relationship:
  "(supplier p = None \<and> created_at p = Some c \<and> updated_at p = Some u \<longrightarrow>
        (\<exists>d. Product_to_dict fmt p = Inr d \<and> map_of d ''supplier_name'' = Some PNone))
   \<and> (product i = None \<and> OrderItem.price i = Some x \<and> OrderItem.quantity i = Some n
        \<and> created_at i = Some c' \<and> updated_at i = Some u' \<longrightarrow>
        (\<exists>d. OrderItem_to_dict fmt i = Inr d \<and> map_of d ''product_name'' = Some PNone))"
  by (simp add: Product_to_dict_returns OrderItem_to_dict_returns)

theorem to_dict_absent_relationship_witness:
  "(\<exists>d. Product_to_dict iso_sample (widget\<lparr>supplier := None\<rparr>) = Inr d
        \<and> map_of d ''supplier_name'' = Some PNone)
   \<and> (\<exists>d. OrderItem_to_dict iso_sample scenario_item = Inr d
        \<and> map_of d ''product_name'' = Some PNone)"
  using to_dict_absent_relationship [where fmt = iso_sample
      and p = "widget\<lparr>supplier := None\<rparr>" and i = scenario_item and c = "DateTime 0"
      and u = "DateTime 0" and x = 10 and n = 2 and c' = "DateTime 0" and u' = "DateTime 0"]
  by (simp add: widget_def scenario_item_def)

subsection \<open>\<^verbatim>\<open>get_session\<close>\<close>



lemma get_session_body_raises:
  "is_exc e \<Longrightarrow> get_session is_exc env (Raises e) =
     ([Rollback, Close],
      (case close_r env of
         Raises z \<Rightarrow> Raises z
       | Returns \<Rightarrow> (case rollback_r env of Raises r \<Rightarrow> Raises r | Returns \<Rightarrow> Raises e)))"
  by (cases "rollback_r env"; cases "close_r env")
     (simp_all add: get_session_def seq_def try_finally_def)

lemma get_session_body_signal:
  "\<not> is_exc e \<Longrightarrow> get_session is_exc env (Raises e) =
     ([Close], (case close_r env of Raises z \<Rightarrow> Raises z | Returns \<Rightarrow> Raises e))"
  by (cases "close_r env") (simp_all add: get_session_def seq_def try_finally_def)

lemma get_session_commit_raises:
  "is_exc e \<Longrightarrow> commit_r env = Raises e \<Longrightarrow> get_session is_exc env Returns =
     ([Commit, Rollback, Close],
      (case close_r env of
         Raises z \<Rightarrow> Raises z
       | Returns \<Rightarrow> (case rollback_r env of Raises r \<Rightarrow> Raises r | Returns \<Rightarrow> Raises e)))"
  by (cases "rollback_r env"; cases "close_r env")
     (simp_all add: get_session_def seq_def try_finally_def)

lemma get_session_commit_signal:
  "\<not> is_exc e \<Longrightarrow> commit_r env = Raises e \<Longrightarrow> get_session is_exc env Returns =
     ([Commit, Close], (case close_r env of Raises z \<Rightarrow> Raises z | Returns \<Rightarrow> Raises e))"
  by (cases "close_r env") (simp_all add: get_session_def seq_def try_finally_def)

lemma get_session_completes:
  "commit_r env = Returns \<Longrightarrow> get_session is_exc env Returns = ([Commit, Close], close_r env)"
  by (cases "close_r env") (simp_all add: get_session_def seq_def try_finally_def)

lemma get_session_calls:
  "fst (get_session is_exc env body) =
     (case body of
        Returns \<Rightarrow>
          (case commit_r env of
             Returns \<Rightarrow> [Commit, Close]
           | Raises e \<Rightarrow> if is_exc e then [Commit, Rollback, Close] else [Commit, Close])
      | Raises e \<Rightarrow> if is_exc e then [Rollback, Close] else [Close])"
proof (cases body)
  case Returns
  show ?thesis
  proof (cases "commit_r env")
    case commit: Returns
    then show ?thesis using Returns by (simp add: get_session_completes)
  next
    case commit: (Raises e)
    then show ?thesis using Returns
      by (cases "is_exc e") (simp_all add: get_session_commit_raises get_session_commit_signal)
  qed
next
  case (Raises e)
  then show ?thesis
    by (cases "is_exc e") (simp_all add: get_session_body_raises get_session_body_signal)
qed

text \<open>
  C2 as stated fails in two ways. An exception of the body that is not an instance of
  \<^verbatim>\<open>Exception\<close> (\<^verbatim>\<open>KeyboardInterrupt\<close>) passes the \<^verbatim>\<open>except Exception\<close> clause: the
  scope calls \<open>Close\<close> only, never \<open>Rollback\<close>. And when the body raises an instance of
  \<^verbatim>\<open>Exception\<close> and \<^verbatim>\<open>rollback\<close> itself raises, the caller receives the exception of
  \<^verbatim>\<open>rollback\<close>, not the one of the body.
\<close>

theorem get_session_contract_counterexample:
  "get_session is_Exception session_ok (Raises KeyboardInterrupt)
     = ([Close], Raises KeyboardInterrupt)
   \<and> get_session is_Exception
        (session_ok\<lparr>rollback_r := Raises (Exception ''OperationalError'')\<rparr>)
        (Raises (Exception ''ValueError''))
     = ([Rollback, Close], Raises (Exception ''OperationalError''))"
  by (simp add: get_session_body_raises get_session_body_signal session_ok_def)

text \<open>
  C2, amended. When the body completes the scope calls \<open>Commit\<close>, and it calls \<open>Commit\<close>
  in no other case; the commit and the close completing, the scope completes having called
  nothing else. When the body raises an instance \<open>e\<close> of \<^verbatim>\<open>Exception\<close>, the scope calls
  \<open>Rollback\<close> and, the rollback and the close completing, raises the same \<open>e\<close>; a commit
  that raises such an \<open>e\<close> is rolled back and re-raised in the same way. An exception of
  the body that is not an instance of \<^verbatim>\<open>Exception\<close> leaves the scope, the close
  completing, with no rollback. In every case \<open>Close\<close> is called exactly once, as the last
  call.
\<close>

theorem get_session_contract:
  "(commit_r env = Returns \<and> close_r env = Returns \<longrightarrow>
      get_session is_exc env Returns = ([Commit, Close], Returns))
   \<and> (is_exc e \<and> rollback_r env = Returns \<and> close_r env = Returns \<longrightarrow>
      get_session is_exc env (Raises e) = ([Rollback, Close], Raises e))
   \<and> (is_exc e \<and> commit_r env = Raises e \<and> rollback_r env = Returns \<and> close_r env = Returns \<longrightarrow>
      get_session is_exc env Returns = ([Commit, Rollback, Close], Raises e))
   \<and> (\<not> is_exc e \<and> close_r env = Returns \<longrightarrow>
      get_session is_exc env (Raises e) = ([Close], Raises e))
   \<and> (Commit \<in> set (fst (get_session is_exc env body))) = (body = Returns)
   \<and> (is_exc e \<longrightarrow> Rollback \<in> set (fst (get_session is_exc env (Raises e))))
   \<and> count_list (fst (get_session is_exc env body)) Close = 1
   \<and> last (fst (get_session is_exc env body)) = Close"
proof -
  have calls: "(Commit \<in> set (fst (get_session is_exc env body))) = (body = Returns)
      \<and> count_list (fst (get_session is_exc env body)) Close = 1
      \<and> last (fst (get_session is_exc env body)) = Close"
    unfolding get_session_calls by (simp split: outcome.splits)
  have rolled: "is_exc e \<longrightarrow> Rollback \<in> set (fst (get_session is_exc env (Raises e)))"
    by (simp add: get_session_calls)
  have completes: "commit_r env = Returns \<and> close_r env = Returns \<longrightarrow>
      get_session is_exc env Returns = ([Commit, Close], Returns)"
    by (simp add: get_session_completes)
  have body: "is_exc e \<and> rollback_r env = Returns \<and> close_r env = Returns \<longrightarrow>
      get_session is_exc env (Raises e) = ([Rollback, Close], Raises e)"
    by (simp add: get_session_body_raises)
  have commit: "is_exc e \<and> commit_r env = Raises e \<and> rollback_r env = Returns
      \<and> close_r env = Returns \<longrightarrow>
      get_session is_exc env Returns = ([Commit, Rollback, Close], Raises e)"
  proof
    assume a: "is_exc e \<and> commit_r env = Raises e \<and> rollback_r env = Returns
      \<and> close_r env = Returns"
    then have "get_session is_exc env Returns =
     ([Commit, Rollback, Close],
      (case close_r env of
         Raises z \<Rightarrow> Raises z
       | Returns \<Rightarrow> (case rollback_r env of Raises r \<Rightarrow> Raises r | Returns \<Rightarrow> Raises e)))"
      by (intro get_session_commit_raises) simp_all
    with a show "get_session is_exc env Returns = ([Commit, Rollback, Close], Raises e)"
      by simp
  qed
  have signal: "\<not> is_exc e \<and> close_r env = Returns \<longrightarrow>
      get_session is_exc env (Raises e) = ([Close], Raises e)"
    by (simp add: get_session_body_signal)
  from calls rolled completes body commit signal show ?thesis by blast
qed

theorem get_session_contract_witness:
  "get_session is_Exception session_ok Returns = ([Commit, Close], Returns)
   \<and> get_session is_Exception session_ok (Raises (Exception ''ValueError''))
       = ([Rollback, Close], Raises (Exception ''ValueError''))
   \<and> get_session is_Exception (session_ok\<lparr>commit_r := Raises (Exception ''IntegrityError'')\<rparr>)
        Returns
       = ([Commit, Rollback, Close], Raises (Exception ''IntegrityError''))
   \<and> get_session is_Exception session_ok (Raises SystemExit) = ([Close], Raises SystemExit)"
proof -
  have ok: "commit_r (session_ok :: py_exception session_env) = Returns
      \<and> rollback_r (session_ok :: py_exception session_env) = Returns
      \<and> close_r (session_ok :: py_exception session_env) = Returns"
    by (simp add: session_ok_def)
  have failing: "commit_r (session_ok\<lparr>commit_r := Raises (Exception ''IntegrityError'')\<rparr>)
        = Raises (Exception ''IntegrityError'')
      \<and> rollback_r (session_ok\<lparr>commit_r := Raises (Exception ''IntegrityError'')\<rparr>) = Returns
      \<and> close_r (session_ok\<lparr>commit_r := Raises (Exception ''IntegrityError'')\<rparr>) = Returns"
    by (simp add: session_ok_def)
  from ok get_session_contract [where is_exc = is_Exception and env = session_ok
      and e = "Exception ''ValueError''" and body = Returns]
  have "get_session is_Exception session_ok Returns = ([Commit, Close], Returns)
   \<and> get_session is_Exception session_ok (Raises (Exception ''ValueError''))
       = ([Rollback, Close], Raises (Exception ''ValueError''))"
    by simp
  moreover from failing get_session_contract [where is_exc = is_Exception
      and env = "session_ok\<lparr>commit_r := Raises (Exception ''IntegrityError'')\<rparr>"
      and e = "Exception ''IntegrityError''" and body = Returns]
  have "get_session is_Exception (session_ok\<lparr>commit_r := Raises (Exception ''IntegrityError'')\<rparr>)
        Returns
       = ([Commit, Rollback, Close], Raises (Exception ''IntegrityError''))"
    by simp
  moreover from ok get_session_contract [where is_exc = is_Exception and env = session_ok
      and e = SystemExit and body = Returns]
  have "get_session is_Exception session_ok (Raises SystemExit) = ([Close], Raises SystemExit)"
    by simp
  ultimately show ?thesis by blast
qed

subsection \<open>\<^verbatim>\<open>create_database\<close>\<close>












subsection \<open>\<^verbatim>\<open>BaseTable.__init__\<close>\<close>











subsection \<open>Items and the stored total\<close>

lemma column_default_None: "column_default d None = Some d"
  by (simp add: column_default_def)

text \<open>
  C6. Appending an item, removing one, changing the quantity of one, or replacing the
  collection altogether leaves \<open>total_amount\<close> as it was; the value follows the items only
  when \<open>calculate_total\<close> is called, which then (the items holding their prices and
  quantities) stores the sum over the current items. An order inserted without a value for
  \<open>total_amount\<close> has \<open>total_amount = 0\<close>.
\<close>

theorem items_change_keeps_total:
  "total_amount (items_append self item) = total_amount self
   \<and> (\<forall>self'. items_pop self i = Inr self' \<longrightarrow> total_amount self' = total_amount self)
   \<and> (\<forall>self'. item_set_quantity self i q = Inr self' \<longrightarrow> total_amount self' = total_amount self)
   \<and> total_amount (self\<lparr>items := xs\<rparr>) = total_amount self
   \<and> ((\<forall>x \<in> set xs. OrderItem.price x \<noteq> None \<and> OrderItem.quantity x \<noteq> None) \<longrightarrow>
        (\<exists>r. calculate_total (self\<lparr>items := xs\<rparr>) = Inr r
           \<and> total_amount (fst r)
               = Some (\<Sum>x\<leftarrow>xs. the (OrderItem.price x) * real_of_int (the (OrderItem.quantity x)))))
   \<and> (total_amount self = None \<longrightarrow> total_amount (Order_insert_defaults now self) = Some 0)"
proof -
  have "(\<forall>x \<in> set xs. OrderItem.price x \<noteq> None \<and> OrderItem.quantity x \<noteq> None) \<longrightarrow>
        (\<exists>r. calculate_total (self\<lparr>items := xs\<rparr>) = Inr r
           \<and> total_amount (fst r)
               = Some (\<Sum>x\<leftarrow>xs. the (OrderItem.price x) * real_of_int (the (OrderItem.quantity x))))"
  proof
    assume "\<forall>x \<in> set xs. OrderItem.price x \<noteq> None \<and> OrderItem.quantity x \<noteq> None"
    then have "\<forall>x \<in> set (items (self\<lparr>items := xs\<rparr>)).
        OrderItem.price x \<noteq> None \<and> OrderItem.quantity x \<noteq> None"
      by simp
    from calculate_total_returns [OF this]
    show "\<exists>r. calculate_total (self\<lparr>items := xs\<rparr>) = Inr r
           \<and> total_amount (fst r)
               = Some (\<Sum>x\<leftarrow>xs. the (OrderItem.price x) * real_of_int (the (OrderItem.quantity x)))"
      by simp
  qed
  moreover have "total_amount (items_append self item) = total_amount self"
    by (simp add: items_append_def)
  moreover have "\<forall>self'. items_pop self i = Inr self' \<longrightarrow> total_amount self' = total_amount self"
    by (auto simp: items_pop_def split: if_splits)
  moreover have "\<forall>self'. item_set_quantity self i q = Inr self' \<longrightarrow>
      total_amount self' = total_amount self"
    by (auto simp: item_set_quantity_def split: if_splits)
  moreover have "total_amount self = None \<longrightarrow>
      total_amount (Order_insert_defaults now self) = Some 0"
    by (simp add: Order_insert_defaults_def column_default_None)
  ultimately show ?thesis by simp
qed

theorem items_change_keeps_total_witness:
  "total_amount (items_append (scenario_order\<lparr>total_amount := Some 20\<rparr>) second_item) = Some 20
   \<and> (\<exists>r. calculate_total (scenario_order\<lparr>items := [scenario_item, second_item]\<rparr>) = Inr r
         \<and> total_amount (fst r) = Some 25)
   \<and> items_pop scenario_order 0 = Inr (scenario_order\<lparr>items := []\<rparr>)
   \<and> total_amount (scenario_order\<lparr>items := []\<rparr>) = total_amount scenario_order
   \<and> total_amount (Order_insert_defaults (DateTime 0) (scenario_order\<lparr>total_amount := None\<rparr>))
       = Some 0"
proof -
  have set: "\<forall>x \<in> set [scenario_item, second_item].
      OrderItem.price x \<noteq> None \<and> OrderItem.quantity x \<noteq> None"
    by (simp add: scenario_item_def second_item_def)
  have sum: "(\<Sum>x\<leftarrow>[scenario_item, second_item].
      the (OrderItem.price x) * real_of_int (the (OrderItem.quantity x))) = 25"
    by (simp add: scenario_item_def second_item_def)
  from set sum items_change_keeps_total [where self = scenario_order and item = second_item
      and i = 0 and q = 1 and xs = "[scenario_item, second_item]" and now = "DateTime 0"]
  have "\<exists>r. calculate_total (scenario_order\<lparr>items := [scenario_item, second_item]\<rparr>) = Inr r
         \<and> total_amount (fst r) = Some 25"
    by simp
  moreover from items_change_keeps_total [where self = "scenario_order\<lparr>total_amount := Some 20\<rparr>"
      and item = second_item and i = 0 and q = 1 and xs = "[]" and now = "DateTime 0"]
  have "total_amount (items_append (scenario_order\<lparr>total_amount := Some 20\<rparr>) second_item)
      = Some 20"
    by simp
  moreover have "items_pop scenario_order 0 = Inr (scenario_order\<lparr>items := []\<rparr>)"
    by (simp add: items_pop_def scenario_order_def)
  moreover from items_change_keeps_total [where self = scenario_order and item = second_item
      and i = 0 and q = 1 and xs = "[]" and now = "DateTime 0"]
  have "total_amount (scenario_order\<lparr>items := []\<rparr>) = total_amount scenario_order"
    by simp
  moreover from items_change_keeps_total [where self = "scenario_order\<lparr>total_amount := None\<rparr>"
      and item = second_item and i = 0 and q = 1 and xs = "[]" and now = "DateTime 0"]
  have "total_amount (Order_insert_defaults (DateTime 0) (scenario_order\<lparr>total_amount := None\<rparr>))
       = Some 0"
    by simp
  ultimately show ?thesis by blast
qed

subsection \<open>Projection into the transfer classes\<close>

lemma OrderItem_getattr_unknown:
  "OrderItem_getattr obj ''total'' = None \<and> OrderItem_getattr obj ''product_name'' = None"
  by (simp add: OrderItem_getattr_def)

lemma field_optional_missing: "field_optional conv None = Inr None"
  by (simp add: field_optional_def)

lemma OrderItemODT_model_validate_fields:
  "OrderItemODT_model_validate obj = Inr r \<Longrightarrow> total_line r = None \<and> product_name r = None"
  by (auto simp: OrderItemODT_model_validate_def OrderItem_getattr_unknown
      field_optional_missing and_then_def split: sum.splits)

lemma validate_all_length:
  "validate_all f xs = Inr ys \<Longrightarrow>
     length ys = length xs \<and> (\<forall>y \<in> set ys. \<exists>x \<in> set xs. f x = Inr y)"
proof (induction xs arbitrary: ys)
  case Nil
  then show ?case by simp
next
  case (Cons x xs)
  from Cons.prems obtain y ys' where y: "f x = Inr y" and ys': "validate_all f xs = Inr ys'"
    and ys: "ys = y # ys'"
    by (auto simp: and_then_def split: sum.splits)
  from Cons.IH [OF ys'] y ys show ?case by auto
qed

text \<open>
  What the projection of an order yields, whenever it validates: one record per item, in
  order, and in each of them \<open>total_line\<close> and \<open>product_name\<close> are \<open>None\<close>, because
  \<^verbatim>\<open>OrderItem\<close> has no attribute named \<^verbatim>\<open>total\<close> or \<^verbatim>\<open>product_name\<close> (the two exist as
  keys of \<open>OrderItem_to_dict\<close> only).
\<close>

lemma OrderODT_model_validate_items:
  assumes "OrderODT_model_validate obj = Inr odt"
  shows "length (OrderODT.items odt) = length (Order.items obj)
     \<and> (\<forall>r \<in> set (OrderODT.items odt). total_line r = None \<and> product_name r = None)"
proof -
  from assms have "validate_all OrderItemODT_model_validate (Order.items obj)
      = Inr (OrderODT.items odt)"
    by (auto simp: OrderODT_model_validate_def and_then_def split: sum.splits)
  from validate_all_length [OF this] show ?thesis
    by (auto dest: OrderItemODT_model_validate_fields)
qed

text \<open>
  C3 at the scenario of the specification (one item, two units at 10.0): the projection has
  one item record, and its \<open>total_line\<close> is \<open>None\<close>, not \<open>20\<close>.
\<close>

theorem OrderODT_model_validate_scenario:
  "OrderODT_model_validate scenario_order =
     Inr \<lparr>OrderODT.id_col = Some 1, OrderODT.customer_name = ''Jane'',
          OrderODT.customer_phone = None, OrderODT.customer_email = None,
          OrderODT.status = ''created'', OrderODT.total_amount = 0,
          OrderODT.items =
            [\<lparr>OrderItemODT.id_col = Some 1, OrderItemODT.product_id = 1,
              product_name = None, OrderItemODT.quantity = 2, OrderItemODT.price = 10,
              total_line = None, OrderItemODT.created_at = Some (DateTime 0),
              OrderItemODT.updated_at = Some (DateTime 0)\<rparr>],
          OrderODT.created_at = Some (DateTime 0),
          OrderODT.updated_at = Some (DateTime 0)\<rparr>"
  by (simp add: OrderODT_model_validate_def OrderItemODT_model_validate_def and_then_def
      scenario_order_def scenario_item_def Order_getattr_def OrderItem_getattr_def
      field_optional_def field_default_def field_required_def py_opt_def)

subsection \<open>The relational store\<close>

lemma delete_product_Inr:
  "delete_product db pid = Inr db' \<longleftrightarrow>
     pid \<notin> OrderItem.product_id ` set (order_items db)
     \<and> db' = db\<lparr>products := filter (\<lambda>p. BaseTable.id_col p \<noteq> pid) (products db)\<rparr>"
  by (auto simp: delete_product_def)

lemma delete_products_Inr:
  "delete_products db pids = Inr db' \<longleftrightarrow>
     set pids \<inter> OrderItem.product_id ` set (order_items db) = {}
     \<and> db' = db\<lparr>products := filter (\<lambda>p. BaseTable.id_col p \<notin> set pids) (products db)\<rparr>"
proof (induction pids arbitrary: db)
  case Nil
  then show ?case by auto
next
  case (Cons pid pids)
  show ?case
  proof (cases "delete_product db pid")
    case (Inl e)
    then show ?thesis by (auto simp: delete_product_def split: if_splits)
  next
    case (Inr db1)
    then have db1: "pid \<notin> OrderItem.product_id ` set (order_items db)"
      "db1 = db\<lparr>products := filter (\<lambda>p. BaseTable.id_col p \<noteq> pid) (products db)\<rparr>"
      by (simp_all add: delete_product_Inr)
    have "filter (\<lambda>p. BaseTable.id_col p \<notin> set pids) (filter (\<lambda>p. BaseTable.id_col p \<noteq> pid) (products db))
        = filter (\<lambda>p. BaseTable.id_col p \<notin> set (pid # pids)) (products db)"
      by (induction "products db") (auto intro: filter_cong)
    then show ?thesis
      using Inr db1 by (auto simp: Cons.IH)
  qed
qed

lemma delete_products_Inl:
  "delete_products db pids = Inl e \<Longrightarrow> e = IntegrityError"
  by (induction pids arbitrary: db) (auto simp: delete_product_def split: if_splits sum.splits)

lemma delete_supplier_Inr:
  "delete_supplier db sid = Inr db' \<longleftrightarrow>
     (\<forall>p \<in> set (products db). supplier_id p = sid \<longrightarrow>
         BaseTable.id_col p \<notin> OrderItem.product_id ` set (order_items db))
     \<and> db' = db\<lparr>products := filter (\<lambda>p. BaseTable.id_col p \<notin>
                     BaseTable.id_col ` {p \<in> set (products db). supplier_id p = sid}) (products db),
                 suppliers := filter (\<lambda>s. BaseTable.id_col s \<noteq> sid) (suppliers db)\<rparr>"
proof (cases "delete_products db
    (map BaseTable.id_col (filter (\<lambda>p. supplier_id p = sid) (products db)))")
  case (Inl e)
  then have "\<not> (\<exists>db1. delete_products db
      (map BaseTable.id_col (filter (\<lambda>p. supplier_id p = sid) (products db))) = Inr db1)"
    by simp
  then have "\<not> (\<forall>p \<in> set (products db). supplier_id p = sid \<longrightarrow>
         BaseTable.id_col p \<notin> OrderItem.product_id ` set (order_items db))"
    unfolding delete_products_Inr by auto
  then show ?thesis using Inl by (simp add: delete_supplier_def)
next
  case (Inr db1)
  then have free: "set (map BaseTable.id_col (filter (\<lambda>p. supplier_id p = sid) (products db)))
        \<inter> OrderItem.product_id ` set (order_items db) = {}"
    and db1: "db1 = db\<lparr>products := filter (\<lambda>p. BaseTable.id_col p \<notin>
        set (map BaseTable.id_col (filter (\<lambda>p. supplier_id p = sid) (products db)))) (products db)\<rparr>"
    by (simp_all add: delete_products_Inr)
  have same: "set (map BaseTable.id_col (filter (\<lambda>p. supplier_id p = sid) (products db)))
      = BaseTable.id_col ` {p \<in> set (products db). supplier_id p = sid}"
    by auto
  have "delete_supplier db sid
      = Inr (db1\<lparr>suppliers := filter (\<lambda>s. BaseTable.id_col s \<noteq> sid) (suppliers db1)\<rparr>)"
    by (simp add: delete_supplier_def Inr)
  moreover from free have "\<forall>p \<in> set (products db). supplier_id p = sid \<longrightarrow>
         BaseTable.id_col p \<notin> OrderItem.product_id ` set (order_items db)"
    by auto
  ultimately show ?thesis
    unfolding db1 same by auto
qed

lemma delete_supplier_Inl:
  "delete_supplier db sid = Inl e \<Longrightarrow> e = IntegrityError"
  by (auto simp: delete_supplier_def split: sum.splits dest: delete_products_Inl)

lemma delete_supplier_references_ok:
  assumes ok: "references_ok db" and del: "delete_supplier db sid = Inr db'"
  shows "references_ok db'"
proof -
  let ?gone = "BaseTable.id_col ` {p \<in> set (products db). supplier_id p = sid}"
  from del have free: "\<forall>p \<in> set (products db). supplier_id p = sid \<longrightarrow>
         BaseTable.id_col p \<notin> OrderItem.product_id ` set (order_items db)"
    and db': "db' = db\<lparr>products := filter (\<lambda>p. BaseTable.id_col p \<notin> ?gone) (products db),
                 suppliers := filter (\<lambda>s. BaseTable.id_col s \<noteq> sid) (suppliers db)\<rparr>"
    by (simp_all add: delete_supplier_Inr)
  have prods: "\<forall>p \<in> set (filter (\<lambda>p. BaseTable.id_col p \<notin> ?gone) (products db)).
      supplier_id p \<in> BaseTable.id_col ` set (filter (\<lambda>s. BaseTable.id_col s \<noteq> sid) (suppliers db))"
  proof
    fix p assume p: "p \<in> set (filter (\<lambda>p. BaseTable.id_col p \<notin> ?gone) (products db))"
    then have "p \<in> set (products db)" and "supplier_id p \<noteq> sid" by auto
    moreover from ok \<open>p \<in> set (products db)\<close>
    obtain s where "s \<in> set (suppliers db)" and "supplier_id p = BaseTable.id_col s"
      unfolding references_ok_def list_all_iff by auto
    ultimately show "supplier_id p
        \<in> BaseTable.id_col ` set (filter (\<lambda>s. BaseTable.id_col s \<noteq> sid) (suppliers db))"
      by (auto simp: image_iff)
  qed
  have lines: "\<forall>i \<in> set (order_items db). OrderItem.product_id i
      \<in> BaseTable.id_col ` set (filter (\<lambda>p. BaseTable.id_col p \<notin> ?gone) (products db))"
  proof
    fix i assume i: "i \<in> set (order_items db)"
    with ok obtain x where x: "x \<in> set (products db)" "OrderItem.product_id i = BaseTable.id_col x"
      unfolding references_ok_def list_all_iff by auto
    have "BaseTable.id_col x \<notin> ?gone"
    proof
      assume "BaseTable.id_col x \<in> ?gone"
      then obtain q where "q \<in> set (products db)" "supplier_id q = sid"
        "BaseTable.id_col x = BaseTable.id_col q" by auto
      with free have "BaseTable.id_col x \<notin> OrderItem.product_id ` set (order_items db)" by auto
      with i x show False by (auto simp: image_iff)
    qed
    with x show "OrderItem.product_id i
        \<in> BaseTable.id_col ` set (filter (\<lambda>p. BaseTable.id_col p \<notin> ?gone) (products db))"
      by (auto simp: image_iff)
  qed
  from ok have "\<forall>i \<in> set (order_items db). order_id i \<in> BaseTable.id_col ` set (orders db)"
    unfolding references_ok_def list_all_iff by auto
  with prods lines show ?thesis
    unfolding db' references_ok_def list_all_iff by simp
qed

lemma delete_order_references_ok:
  assumes ok: "references_ok db" and del: "delete_order db oid = Inr db'"
  shows "references_ok db'"
proof -
  from del have db': "db' = db\<lparr>orders := filter (\<lambda>x. BaseTable.id_col x \<noteq> oid) (orders db),
      order_items := filter (\<lambda>i. order_id i \<noteq> oid) (order_items db)\<rparr>"
    by (simp add: delete_order_def)
  have lines: "\<forall>i \<in> set (filter (\<lambda>i. order_id i \<noteq> oid) (order_items db)).
      order_id i \<in> BaseTable.id_col ` set (filter (\<lambda>x. BaseTable.id_col x \<noteq> oid) (orders db))
      \<and> OrderItem.product_id i \<in> BaseTable.id_col ` set (products db)"
  proof
    fix i assume "i \<in> set (filter (\<lambda>i. order_id i \<noteq> oid) (order_items db))"
    then have i: "i \<in> set (order_items db)" and other: "order_id i \<noteq> oid" by auto
    from ok i obtain x where "x \<in> set (orders db)" "order_id i = BaseTable.id_col x"
      unfolding references_ok_def list_all_iff by auto
    with other have "order_id i
        \<in> BaseTable.id_col ` set (filter (\<lambda>x. BaseTable.id_col x \<noteq> oid) (orders db))"
      by (auto simp: image_iff)
    moreover from ok i have "OrderItem.product_id i \<in> BaseTable.id_col ` set (products db)"
      unfolding references_ok_def list_all_iff by auto
    ultimately show "order_id i
        \<in> BaseTable.id_col ` set (filter (\<lambda>x. BaseTable.id_col x \<noteq> oid) (orders db))
      \<and> OrderItem.product_id i \<in> BaseTable.id_col ` set (products db)"
      by simp
  qed
  from ok have "\<forall>p \<in> set (products db). supplier_id p \<in> BaseTable.id_col ` set (suppliers db)"
    unfolding references_ok_def list_all_iff by auto
  with lines show ?thesis
    unfolding db' references_ok_def list_all_iff by simp
qed

lemma delete_product_references_ok:
  assumes ok: "references_ok db" and del: "delete_product db pid = Inr db'"
  shows "references_ok db'"
proof -
  from del have free: "pid \<notin> OrderItem.product_id ` set (order_items db)"
    and db': "db' = db\<lparr>products := filter (\<lambda>p. BaseTable.id_col p \<noteq> pid) (products db)\<rparr>"
    by (simp_all add: delete_product_Inr)
  have lines: "\<forall>i \<in> set (order_items db). OrderItem.product_id i
      \<in> BaseTable.id_col ` set (filter (\<lambda>p. BaseTable.id_col p \<noteq> pid) (products db))"
  proof
    fix i assume i: "i \<in> set (order_items db)"
    with ok obtain x where x: "x \<in> set (products db)" "OrderItem.product_id i = BaseTable.id_col x"
      unfolding references_ok_def list_all_iff by auto
    from i free have "OrderItem.product_id i \<noteq> pid" by auto
    with x show "OrderItem.product_id i
        \<in> BaseTable.id_col ` set (filter (\<lambda>p. BaseTable.id_col p \<noteq> pid) (products db))"
      by (auto simp: image_iff)
  qed
  from ok have "\<forall>i \<in> set (order_items db). order_id i \<in> BaseTable.id_col ` set (orders db)"
    and "\<forall>p \<in> set (products db). supplier_id p \<in> BaseTable.id_col ` set (suppliers db)"
    unfolding references_ok_def list_all_iff by auto
  with lines show ?thesis
    unfolding db' references_ok_def list_all_iff by simp
qed

lemma insert_supplier_references_ok:
  assumes "references_ok db" and "insert_supplier db s = Inr db'"
  shows "references_ok db'"
  using assms unfolding insert_supplier_def references_ok_def list_all_iff
  by (auto simp: image_iff split: if_splits)

lemma unit_of_work_fails:
  "stmt db = Inl e \<Longrightarrow> unit_of_work stmt db = (db, Raises e)"
  by (simp add: unit_of_work_def get_session_commit_raises session_ok_def)

lemma unit_of_work_commits:
  "stmt db = Inr db' \<Longrightarrow> unit_of_work stmt db = (db', Returns)"
  by (simp add: unit_of_work_def get_session_completes session_ok_def)

lemma insert_supplier_duplicate:
  "Supplier.name s \<in> Supplier.name ` set (suppliers db) \<Longrightarrow>
     insert_supplier db s = Inl IntegrityError"
  by (simp add: insert_supplier_def)

lemma insert_supplier_Inr:
  "insert_supplier db s = Inr db' \<longleftrightarrow>
     Supplier.name s \<notin> Supplier.name ` set (suppliers db)
     \<and> BaseTable.id_col s \<notin> BaseTable.id_col ` set (suppliers db)
     \<and> db' = db\<lparr>suppliers := suppliers db @ [s]\<rparr>"
  unfolding insert_supplier_def by (cases "Supplier.name s \<in> Supplier.name ` set (suppliers db)
         \<or> BaseTable.id_col s \<in> BaseTable.id_col ` set (suppliers db)") auto

text \<open>
  C4. Inserting a supplier whose name is the name of a stored supplier fails with an
  integrity error, and the unit of work that attempted it leaves the store as it was. No
  insert that succeeds breaks the uniqueness of the names: it appends the one new row to a
  table whose names stay pairwise distinct.
\<close>

theorem supplier_name_unique:
  "(Supplier.name s \<in> Supplier.name ` set (suppliers db) \<longrightarrow>
      insert_supplier db s = Inl IntegrityError
      \<and> unit_of_work (\<lambda>d. insert_supplier d s) db = (db, Raises IntegrityError))
   \<and> (distinct (map Supplier.name (suppliers db)) \<longrightarrow>
        (\<forall>db'. insert_supplier db s = Inr db' \<longrightarrow>
           suppliers db' = suppliers db @ [s]
           \<and> distinct (map Supplier.name (suppliers db'))))"
proof (intro conjI impI allI)
  assume dup: "Supplier.name s \<in> Supplier.name ` set (suppliers db)"
  then show fails: "insert_supplier db s = Inl IntegrityError"
    by (rule insert_supplier_duplicate)
  then show "unit_of_work (\<lambda>d. insert_supplier d s) db = (db, Raises IntegrityError)"
    by (rule unit_of_work_fails)
next
  fix db'
  assume "distinct (map Supplier.name (suppliers db))" and "insert_supplier db s = Inr db'"
  then show "suppliers db' = suppliers db @ [s]"
    by (simp add: insert_supplier_Inr)
next
  fix db'
  assume d: "distinct (map Supplier.name (suppliers db))" and "insert_supplier db s = Inr db'"
  then have "Supplier.name s \<notin> Supplier.name ` set (suppliers db)"
    and "suppliers db' = suppliers db @ [s]"
    by (simp_all add: insert_supplier_Inr)
  with d show "distinct (map Supplier.name (suppliers db'))"
    by simp
qed


theorem supplier_name_unique_witness:
  "insert_supplier acme_store (acme\<lparr>BaseTable.id_col := 2\<rparr>) = Inl IntegrityError
   \<and> unit_of_work (\<lambda>d. insert_supplier d (acme\<lparr>BaseTable.id_col := 2\<rparr>)) acme_store
       = (acme_store, Raises IntegrityError)
   \<and> insert_supplier empty_store acme = Inr acme_store_no_products
   \<and> distinct (map Supplier.name (suppliers acme_store_no_products))"
proof -
  have dup: "Supplier.name (acme\<lparr>BaseTable.id_col := 2\<rparr>)
      \<in> Supplier.name ` set (suppliers acme_store)"
    by (simp add: acme_store_def)
  have fresh: "distinct (map Supplier.name (suppliers empty_store))"
    by (simp add: empty_store_def)
  have ins: "insert_supplier empty_store acme = Inr acme_store_no_products"
    by (simp add: insert_supplier_def empty_store_def acme_store_no_products_def)
  from dup supplier_name_unique [where db = acme_store and s = "acme\<lparr>BaseTable.id_col := 2\<rparr>"]
  have "insert_supplier acme_store (acme\<lparr>BaseTable.id_col := 2\<rparr>) = Inl IntegrityError
   \<and> unit_of_work (\<lambda>d. insert_supplier d (acme\<lparr>BaseTable.id_col := 2\<rparr>)) acme_store
       = (acme_store, Raises IntegrityError)"
    by blast
  moreover from fresh ins supplier_name_unique [where db = empty_store and s = acme]
  have "distinct (map Supplier.name (suppliers acme_store_no_products))"
    by blast
  ultimately show ?thesis using ins by blast
qed

lemma jane_store_ok: "references_ok jane_store"
  by (simp add: references_ok_def jane_store_def widget_def acme_def scenario_item_def
      scenario_order_def)

lemma jane_store_referenced: "1 \<in> OrderItem.product_id ` set (order_items jane_store)"
  by (simp add: jane_store_def scenario_item_def)

lemma jane_store_delete_order: "delete_order jane_store 1 = Inr acme_store"
  by (simp add: delete_order_def jane_store_def acme_store_def scenario_item_def
      scenario_order_def)

lemma acme_store_delete_supplier: "delete_supplier acme_store 1 = Inr empty_store"
  by (simp add: delete_supplier_def delete_product_def acme_store_def empty_store_def
      widget_def acme_def)

lemma jane_store_widget: "widget \<in> set (products jane_store) \<and> supplier_id widget = 1
    \<and> BaseTable.id_col widget = 1"
  by (simp add: jane_store_def widget_def)

text \<open>
  C5. A delete of a supplier that succeeds leaves no product of that supplier and no such
  supplier, and it succeeds exactly when no order item references one of the supplier's
  products. A delete of an order always succeeds and leaves no item of that order. A
  product that an order item references cannot be deleted: the delete fails with an
  integrity error and the unit of work leaves the store, the order item included, as it
  was; once no order item references the product, the delete succeeds and leaves the
  order items alone. Each delete that succeeds keeps every reference of the store pointing
  to a row.
\<close>

theorem delete_cascades:
  "(\<forall>db'. delete_supplier db sid = Inr db' \<longrightarrow>
       (\<forall>p \<in> set (products db'). supplier_id p \<noteq> sid)
       \<and> (\<forall>s \<in> set (suppliers db'). BaseTable.id_col s \<noteq> sid)
       \<and> order_items db' = order_items db
       \<and> (references_ok db \<longrightarrow> references_ok db'))
   \<and> ((\<exists>db'. delete_supplier db sid = Inr db')
        = (\<forall>p \<in> set (products db). supplier_id p = sid \<longrightarrow>
             BaseTable.id_col p \<notin> OrderItem.product_id ` set (order_items db)))
   \<and> (\<exists>db'. delete_order db oid = Inr db'
         \<and> (\<forall>i \<in> set (order_items db'). order_id i \<noteq> oid)
         \<and> (\<forall>x \<in> set (orders db'). BaseTable.id_col x \<noteq> oid)
         \<and> products db' = products db
         \<and> (references_ok db \<longrightarrow> references_ok db'))
   \<and> (pid \<in> OrderItem.product_id ` set (order_items db) \<longrightarrow>
         delete_product db pid = Inl IntegrityError
         \<and> unit_of_work (\<lambda>d. delete_product d pid) db = (db, Raises IntegrityError))
   \<and> (pid \<notin> OrderItem.product_id ` set (order_items db) \<longrightarrow>
         (\<exists>db'. delete_product db pid = Inr db'
            \<and> (\<forall>p \<in> set (products db'). BaseTable.id_col p \<noteq> pid)
            \<and> order_items db' = order_items db
            \<and> (references_ok db \<longrightarrow> references_ok db')))"
proof -
  have sup: "\<forall>db'. delete_supplier db sid = Inr db' \<longrightarrow>
       (\<forall>p \<in> set (products db'). supplier_id p \<noteq> sid)
       \<and> (\<forall>s \<in> set (suppliers db'). BaseTable.id_col s \<noteq> sid)
       \<and> order_items db' = order_items db
       \<and> (references_ok db \<longrightarrow> references_ok db')"
  proof (intro allI impI)
    fix db' assume del: "delete_supplier db sid = Inr db'"
    then have "(\<forall>p \<in> set (products db'). supplier_id p \<noteq> sid)
       \<and> (\<forall>s \<in> set (suppliers db'). BaseTable.id_col s \<noteq> sid)
       \<and> order_items db' = order_items db"
      by (auto simp: delete_supplier_Inr)
    with del show "(\<forall>p \<in> set (products db'). supplier_id p \<noteq> sid)
       \<and> (\<forall>s \<in> set (suppliers db'). BaseTable.id_col s \<noteq> sid)
       \<and> order_items db' = order_items db
       \<and> (references_ok db \<longrightarrow> references_ok db')"
      by (simp add: delete_supplier_references_ok)
  qed
  have sup_iff: "(\<exists>db'. delete_supplier db sid = Inr db')
        = (\<forall>p \<in> set (products db). supplier_id p = sid \<longrightarrow>
             BaseTable.id_col p \<notin> OrderItem.product_id ` set (order_items db))"
    by (simp add: delete_supplier_Inr)
  have ord: "\<exists>db'. delete_order db oid = Inr db'
         \<and> (\<forall>i \<in> set (order_items db'). order_id i \<noteq> oid)
         \<and> (\<forall>x \<in> set (orders db'). BaseTable.id_col x \<noteq> oid)
         \<and> products db' = products db
         \<and> (references_ok db \<longrightarrow> references_ok db')"
  proof -
    obtain db' where del: "delete_order db oid = Inr db'"
      by (simp add: delete_order_def)
    then have "(\<forall>i \<in> set (order_items db'). order_id i \<noteq> oid)
         \<and> (\<forall>x \<in> set (orders db'). BaseTable.id_col x \<noteq> oid)
         \<and> products db' = products db"
      by (auto simp: delete_order_def)
    with del show ?thesis
      by (auto simp: delete_order_references_ok)
  qed
  have ref: "pid \<in> OrderItem.product_id ` set (order_items db) \<longrightarrow>
         delete_product db pid = Inl IntegrityError
         \<and> unit_of_work (\<lambda>d. delete_product d pid) db = (db, Raises IntegrityError)"
    by (simp add: delete_product_def unit_of_work_fails)
  have unref: "pid \<notin> OrderItem.product_id ` set (order_items db) \<longrightarrow>
         (\<exists>db'. delete_product db pid = Inr db'
            \<and> (\<forall>p \<in> set (products db'). BaseTable.id_col p \<noteq> pid)
            \<and> order_items db' = order_items db
            \<and> (references_ok db \<longrightarrow> references_ok db'))"
  proof
    assume free: "pid \<notin> OrderItem.product_id ` set (order_items db)"
    then obtain db' where del: "delete_product db pid = Inr db'"
      by (simp add: delete_product_def)
    then have "(\<forall>p \<in> set (products db'). BaseTable.id_col p \<noteq> pid)
            \<and> order_items db' = order_items db"
      by (auto simp: delete_product_Inr)
    with del show "\<exists>db'. delete_product db pid = Inr db'
            \<and> (\<forall>p \<in> set (products db'). BaseTable.id_col p \<noteq> pid)
            \<and> order_items db' = order_items db
            \<and> (references_ok db \<longrightarrow> references_ok db')"
      by (auto simp: delete_product_references_ok)
  qed
  from sup sup_iff ord ref unref show ?thesis by blast
qed

theorem delete_cascades_witness:
  "delete_product jane_store 1 = Inl IntegrityError
   \<and> unit_of_work (\<lambda>d. delete_product d 1) jane_store = (jane_store, Raises IntegrityError)
   \<and> \<not> (\<exists>db'. delete_supplier jane_store 1 = Inr db')
   \<and> delete_order jane_store 1 = Inr acme_store
   \<and> references_ok acme_store
   \<and> delete_supplier acme_store 1 = Inr empty_store
   \<and> products empty_store = []"
proof -
  note jane = delete_cascades [where db = jane_store and sid = 1 and oid = 1 and pid = 1]
  from jane jane_store_referenced
  have prod: "delete_product jane_store 1 = Inl IntegrityError
     \<and> unit_of_work (\<lambda>d. delete_product d 1) jane_store = (jane_store, Raises IntegrityError)"
    by blast
  from jane have "(\<exists>db'. delete_supplier jane_store 1 = Inr db')
        = (\<forall>p \<in> set (products jane_store). supplier_id p = 1 \<longrightarrow>
             BaseTable.id_col p \<notin> OrderItem.product_id ` set (order_items jane_store))"
    by blast
  with jane_store_widget jane_store_referenced
  have sup: "\<not> (\<exists>db'. delete_supplier jane_store 1 = Inr db')"
    by auto
  from jane have "\<exists>db'. delete_order jane_store 1 = Inr db'
       \<and> (references_ok jane_store \<longrightarrow> references_ok db')"
    by blast
  with jane_store_delete_order jane_store_ok have ord: "references_ok acme_store"
    by auto
  have "products empty_store = []"
    by (simp add: empty_store_def)
  with prod sup ord jane_store_delete_order acme_store_delete_supplier show ?thesis
    by blast
qed

end
